theory Spec2Isabelle
  imports Main "HOL-Library.Word"
begin

section \<open>Data model\<close>

text \<open>
  The routes of MediBridge are request handlers over one relational store, reached through
  an object-relational mapper. The store is modelled as a record of tables, each table a
  list of rows in insertion order. A handler takes the store and its request and returns
  the store after the request together with the response: an error (status code and
  message) or the JSON value of the success.

  Primary keys are opaque identifiers that the store generates; the model uses natural
  numbers and generates a key that is not in the table yet (\<open>fresh_id\<close>). Specialty keys
  are the source's \<open>number\<close>. Fields that no modelled handler reads or writes (password
  hash, hospital, the timestamps of rows other than messages) are left out of the rows;
  of the specialty catalog the store keeps the keys. A lookup by a unique key returns the
  first row with the key and a write by a unique key changes every row with it, which is
  the same row when the keys of the table are distinct.
  Message content and the fields that the sign-up schema measures are JavaScript strings:
  lists of UTF-16 code units, whose \<open>length\<close> is the list's length. The store keeps
  message content as text in UTF-8: it refuses text with the code unit U+0000, and a
  surrogate code unit outside a pair reaches it as U+FFFD (\<open>store_text\<close>). Names,
  addresses and messages of responses are compared only, and are plain strings.
\<close>

type_synonym js_string = "16 word list"

datatype user_type = LOCAL | EXTERNAL

datatype mdt_status = ACTIVE | COMPLETED | ARCHIVED

datatype invitation_status = PENDING | ACCEPTED | DECLINED | CANCELLED

text \<open>Exceptions thrown by the mapper inside a handler.\<close>

datatype prisma_error =
  RecordNotFound | UniqueConstraintFailed | ForeignKeyFailed | ArgumentMissing | InvalidText

text \<open>
  An error response: the status code with the literal message of the source, or with the
  message of the exception that the handler caught.
\<close>

datatype http_error = HttpError nat string | HttpThrown nat prisma_error

record user =
  user_id :: nat
  user_email :: string
  firstName :: string
  lastName :: string
  userType :: user_type
  specialties :: "int list"

record mdt =
  mdt_id :: nat
  mdt_name :: string
  creatorId :: nat
  mdt_state :: mdt_status
  members :: "nat list"

datatype gender = MALE | FEMALE

record medication =
  med_name :: string
  med_dosage :: string

text \<open>The \<open>PatientProfile\<close> of a request body, and the row made of it for an MDT.\<close>

record patient_input =
  pp_age :: int
  pp_gender :: gender
  pp_uniqueId :: string
  pp_medicalHistory :: string
  pp_caseSummary :: string
  pp_medications :: "medication list"

record patient_profile = patient_input +
  pp_mdtId :: nat

record mdt_specialty =
  ms_mdtId :: nat
  ms_specialtyId :: int
  ms_filled :: bool

record invitation =
  inv_id :: nat
  inv_mdtId :: nat
  inv_senderId :: nat
  inv_receiverId :: nat
  inv_specialtyId :: "int option"
  inv_status :: invitation_status

record message =
  msg_id :: nat
  msg_content :: js_string
  msg_userId :: nat
  msg_mdtId :: nat
  msg_createdAt :: nat

record db =
  specialtyCatalog :: "int list"
  users :: "user list"
  mdts :: "mdt list"
  patientProfiles :: "patient_profile list"
  mdtSpecialties :: "mdt_specialty list"
  invitations :: "invitation list"
  messages :: "message list"

text \<open>The key the store gives a new row: one past the largest key of the table.\<close>

definition fresh_id :: "nat list \<Rightarrow> nat" where
  "fresh_id ids = Suc (fold max ids 0)"

text \<open>\<open>prisma.user.findUnique({ where: { email } })\<close>\<close>

definition findUserByEmail :: "db \<Rightarrow> string \<Rightarrow> user option" where
  "findUserByEmail d e = find (\<lambda>u. user_email u = e) (users d)"

text \<open>\<open>prisma.mDT.findUnique({ where: { id } })\<close>\<close>

definition findMDT :: "db \<Rightarrow> nat \<Rightarrow> mdt option" where
  "findMDT d i = find (\<lambda>m. mdt_id m = i) (mdts d)"

text \<open>\<open>prisma.mDTInvitation.findUnique({ where: { id } })\<close>\<close>

definition findInvitation :: "db \<Rightarrow> nat \<Rightarrow> invitation option" where
  "findInvitation d i = find (\<lambda>r. inv_id r = i) (invitations d)"

section \<open>Messaging log\<close>











section \<open>MDT creation\<close>

record create_mdt_body =
  body_name :: string
  body_patientProfile :: patient_input
  body_localDoctors :: "nat list"
  body_requiredSpecialties :: "int list"

text \<open>
  \<open>tx.mDT.update({ where: { id }, data: { members: { connect: [...] } } })\<close>: throws when
  the MDT or one of the users to connect does not exist; connecting a member again changes
  nothing.
\<close>

definition mdt_connect_members :: "db \<Rightarrow> nat \<Rightarrow> nat list \<Rightarrow> prisma_error + db" where
  "mdt_connect_members tx mdtId ids =
     (case findMDT tx mdtId of
        None \<Rightarrow> Inl RecordNotFound
      | Some m \<Rightarrow>
          if \<not> list_all (\<lambda>i. i \<in> set (map user_id (users tx))) ids then Inl RecordNotFound
          else Inr (tx \<lparr> mdts :=
                      map (\<lambda>x. if mdt_id x = mdtId
                                then x \<lparr> members := List.union ids (members x) \<rparr> else x)
                        (mdts tx) \<rparr>))"

text \<open>
  \<open>tx.mDTSpecialty.create\<close> for each required specialty, with \<open>filled: false\<close>. The pair
  (MDT, specialty) is the row's unique key (the source addresses rows by
  \<open>mdtId_specialtyId\<close>), and the specialty is a row of the catalog.
\<close>

fun create_mdtSpecialties :: "db \<Rightarrow> nat \<Rightarrow> int list \<Rightarrow> prisma_error + db" where
  "create_mdtSpecialties tx mdtId [] = Inr tx"
| "create_mdtSpecialties tx mdtId (s # ss) =
     (if s \<notin> set (specialtyCatalog tx) then Inl ForeignKeyFailed
      else if list_ex (\<lambda>r. ms_mdtId r = mdtId \<and> ms_specialtyId r = s) (mdtSpecialties tx)
      then Inl UniqueConstraintFailed
      else create_mdtSpecialties
             (tx \<lparr> mdtSpecialties := mdtSpecialties tx @
                      [\<lparr> ms_mdtId = mdtId, ms_specialtyId = s, ms_filled = False \<rparr>] \<rparr>)
             mdtId ss)"

text \<open>
  \<open>tx.user.findMany\<close>: the external users with a specialty among the required ones, each
  with its specialties.
\<close>

definition externalDoctors :: "db \<Rightarrow> int list \<Rightarrow> user list" where
  "externalDoctors tx required =
     filter (\<lambda>u. userType u = EXTERNAL \<and> list_ex (\<lambda>s. s \<in> set required) (specialties u))
       (users tx)"

text \<open>\<open>doctor.specialties.find(specialty => requiredSpecialties.includes(specialty.id))\<close>\<close>

definition matchingSpecialty :: "int list \<Rightarrow> user \<Rightarrow> int option" where
  "matchingSpecialty required doctor = find (\<lambda>s. s \<in> set required) (specialties doctor)"

text \<open>\<open>matchingSpecialty?.id || null\<close>: the key 0 is falsy, as \<open>undefined\<close> is.\<close>

definition or_null :: "int option \<Rightarrow> int option" where
  "or_null x = (case x of None \<Rightarrow> None | Some i \<Rightarrow> if i = 0 then None else Some i)"

text \<open>
  \<open>mDTInvitation.create\<close>: the new row is PENDING (the column's default, written out by
  the MDT creation). The MDT, the sender, the receiver and the specialty (when there is one)
  are foreign keys.
\<close>

definition invitation_create ::
  "db \<Rightarrow> nat \<Rightarrow> nat \<Rightarrow> nat \<Rightarrow> int option \<Rightarrow> prisma_error + (db \<times> invitation)" where
  "invitation_create tx mdtId sender receiver spec =
     (if findMDT tx mdtId = None
         \<or> sender \<notin> set (map user_id (users tx))
         \<or> receiver \<notin> set (map user_id (users tx))
         \<or> (case spec of None \<Rightarrow> False | Some s \<Rightarrow> s \<notin> set (specialtyCatalog tx))
      then Inl ForeignKeyFailed
      else
        let row = \<lparr> inv_id = fresh_id (map inv_id (invitations tx)),
                    inv_mdtId = mdtId,
                    inv_senderId = sender,
                    inv_receiverId = receiver,
                    inv_specialtyId = spec,
                    inv_status = PENDING \<rparr>
        in Inr (tx \<lparr> invitations := invitations tx @ [row] \<rparr>, row))"

text \<open>The invitations for the external doctors, one per doctor.\<close>

fun create_invitations ::
  "db \<Rightarrow> nat \<Rightarrow> nat \<Rightarrow> int list \<Rightarrow> user list \<Rightarrow> prisma_error + db" where
  "create_invitations tx mdtId sender required [] = Inr tx"
| "create_invitations tx mdtId sender required (doctor # ds) =
     (case invitation_create tx mdtId sender (user_id doctor)
             (or_null (matchingSpecialty required doctor)) of
        Inl e \<Rightarrow> Inl e
      | Inr (tx', row) \<Rightarrow> create_invitations tx' mdtId sender required ds)"

text \<open>
  The callback of \<open>prisma.$transaction\<close> in \<open>POST /api/mdts\<close>: an exception of a step
  leaves the callback, and the steps after it do not run.
\<close>

definition create_mdt_tx :: "db \<Rightarrow> user \<Rightarrow> create_mdt_body \<Rightarrow> prisma_error + (db \<times> mdt option)" where
  "create_mdt_tx tx u body =
     (let newId = fresh_id (map mdt_id (mdts tx));
          newMDT = \<lparr> mdt_id = newId, mdt_name = body_name body, creatorId = user_id u,
                     mdt_state = ACTIVE, members = [] \<rparr>;
          tx1 = tx \<lparr> mdts := mdts tx @ [newMDT] \<rparr>
      in case mdt_connect_members tx1 newId (user_id u # body_localDoctors body) of
           Inl e \<Rightarrow> Inl e
         | Inr tx2 \<Rightarrow>
             let tx3 = tx2 \<lparr> patientProfiles := patientProfiles tx2 @
                               [patient_input.extend (body_patientProfile body)
                                  (patient_profile.fields newId)] \<rparr>
             in case create_mdtSpecialties tx3 newId (body_requiredSpecialties body) of
                  Inl e \<Rightarrow> Inl e
                | Inr tx4 \<Rightarrow>
                    (case create_invitations tx4 newId (user_id u) (body_requiredSpecialties body)
                            (externalDoctors tx4 (body_requiredSpecialties body)) of
                       Inl e \<Rightarrow> Inl e
                     | Inr tx5 \<Rightarrow> Inr (tx5, findMDT tx5 newId)))"

text \<open>
  \<open>POST /api/mdts\<close>. The transaction commits the store its callback returns, and keeps
  the store it started from when the callback throws; the handler then answers 500 with
  the exception's message.
\<close>

definition POST_mdts :: "db \<Rightarrow> string option \<Rightarrow> create_mdt_body \<Rightarrow> db \<times> (http_error + mdt option)" where
  "POST_mdts d session body =
     (case session of
        None \<Rightarrow> (d, Inl (HttpError 401 ''Unauthorized''))
      | Some e \<Rightarrow>
          (case findUserByEmail d e of
             None \<Rightarrow> (d, Inl (HttpError 404 ''User not found''))
           | Some u \<Rightarrow>
               if userType u \<noteq> LOCAL
               then (d, Inl (HttpError 403 ''Only local users can create MDTs''))
               else
                 (case create_mdt_tx d u body of
                    Inl err \<Rightarrow> (d, Inl (HttpThrown 500 err))
                  | Inr (d', r) \<Rightarrow> (d', Inr r))))"

section \<open>Invitations\<close>

text \<open>\<open>POST /api/mdt/invitations\<close>: the direct invitation of a user by e-mail address.\<close>

definition POST_invitations ::
  "db \<Rightarrow> string option \<Rightarrow> nat \<Rightarrow> string \<Rightarrow> db \<times> (http_error + invitation)" where
  "POST_invitations d session mdtId receiverEmail =
     (case session of
        None \<Rightarrow> (d, Inl (HttpError 401 ''Unauthorized''))
      | Some e \<Rightarrow>
          (case findUserByEmail d e of
             None \<Rightarrow> (d, Inl (HttpError 404 ''Sender not found''))
           | Some sender \<Rightarrow>
               if userType sender \<noteq> LOCAL
               then (d, Inl (HttpError 403 ''Only local users can send invitations''))
               else
                 (case findUserByEmail d receiverEmail of
                    None \<Rightarrow> (d, Inl (HttpError 404 ''Receiver not found''))
                  | Some receiver \<Rightarrow>
                      (case find (\<lambda>r. inv_mdtId r = mdtId \<and> inv_receiverId r = user_id receiver
                                        \<and> inv_status r = PENDING) (invitations d) of
                         Some existing \<Rightarrow> (d, Inl (HttpError 400 ''Invitation already exists''))
                       | None \<Rightarrow>
                           (case invitation_create d mdtId (user_id sender) (user_id receiver) None of
                              Inl err \<Rightarrow> (d, Inl (HttpError 500 ''Failed to create invitation''))
                            | Inr (d', row) \<Rightarrow> (d', Inr row))))))"

text \<open>
  \<open>PATCH /api/mdt/invitations\<close> (the collection route): sets the status of the caller's
  invitation to the status of the body, and connects the caller to the MDT on ACCEPTED.
  The two writes are not in a transaction.
\<close>

definition PATCH_invitations ::
  "db \<Rightarrow> string option \<Rightarrow> nat \<Rightarrow> invitation_status \<Rightarrow> db \<times> (http_error + invitation)" where
  "PATCH_invitations d session invitationId status =
     (case session of
        None \<Rightarrow> (d, Inl (HttpError 401 ''Unauthorized''))
      | Some e \<Rightarrow>
          (case findUserByEmail d e of
             None \<Rightarrow> (d, Inl (HttpError 404 ''User not found''))
           | Some u \<Rightarrow>
               (case find (\<lambda>r. inv_id r = invitationId \<and> inv_receiverId r = user_id u)
                       (invitations d) of
                  None \<Rightarrow> (d, Inl (HttpError 500 ''Failed to update invitation''))
                | Some r \<Rightarrow>
                    let d1 = d \<lparr> invitations :=
                                   map (\<lambda>x. if inv_id x = invitationId \<and> inv_receiverId x = user_id u
                                             then x \<lparr> inv_status := status \<rparr> else x)
                                     (invitations d) \<rparr>;
                        invitation = r \<lparr> inv_status := status \<rparr>
                    in if status = ACCEPTED
                       then (case mdt_connect_members d1 (inv_mdtId invitation) [user_id u] of
                               Inl err \<Rightarrow> (d1, Inl (HttpError 500 ''Failed to update invitation''))
                             | Inr d2 \<Rightarrow> (d2, Inr invitation))
                       else (d1, Inr invitation))))"

text \<open>
  \<open>GET /api/mdt/invitations/[id]\<close>. The handler lets the request through when the caller is a
  member of the MDT or when \<open>invitation.sender.firstName\<close> is truthy (a non-empty string);
  otherwise it looks for the invitation among those the caller received. The MDT and the
  sender are required relations of the row: reading through a missing one throws, and the
  handler answers 500.
\<close>

definition GET_invitation :: "db \<Rightarrow> string option \<Rightarrow> nat \<Rightarrow> http_error + invitation" where
  "GET_invitation d session invId =
     (case session of
        None \<Rightarrow> Inl (HttpError 401 ''Unauthorized'')
      | Some e \<Rightarrow>
          (case findUserByEmail d e of
             None \<Rightarrow> Inl (HttpError 404 ''User not found'')
           | Some u \<Rightarrow>
               (case findInvitation d invId of
                  None \<Rightarrow> Inl (HttpError 404 ''Invitation not found'')
                | Some invitation \<Rightarrow>
                    (case (findMDT d (inv_mdtId invitation),
                           find (\<lambda>s. user_id s = inv_senderId invitation) (users d)) of
                       (Some m, Some sender) \<Rightarrow>
                         if user_id u \<in> set (members m) \<or> firstName sender \<noteq> []
                         then Inr invitation
                         else (case find (\<lambda>r. inv_id r = invId \<and> inv_receiverId r = user_id u)
                                      (invitations d) of
                                 None \<Rightarrow> Inl (HttpError 403 ''Not authorized to view this invitation'')
                               | Some userInvitation \<Rightarrow> Inr invitation)
                     | _ \<Rightarrow> Inl (HttpError 500 ''Failed to fetch invitation'')))))"

text \<open>
  \<open>DELETE /api/mdt/invitations/[id]\<close>: the sender withdraws an invitation that is still
  PENDING.
\<close>

definition DELETE_invitation :: "db \<Rightarrow> string option \<Rightarrow> nat \<Rightarrow> db \<times> (http_error + unit)" where
  "DELETE_invitation d session invId =
     (case session of
        None \<Rightarrow> (d, Inl (HttpError 401 ''Unauthorized''))
      | Some e \<Rightarrow>
          (case findUserByEmail d e of
             None \<Rightarrow> (d, Inl (HttpError 404 ''User not found''))
           | Some u \<Rightarrow>
               (case findInvitation d invId of
                  None \<Rightarrow> (d, Inl (HttpError 404 ''Invitation not found''))
                | Some invitation \<Rightarrow>
                    if inv_senderId invitation \<noteq> user_id u
                    then (d, Inl (HttpError 403 ''Not authorized to cancel this invitation''))
                    else if inv_status invitation \<noteq> PENDING
                    then (d, Inl (HttpError 400 ''Cannot cancel a non-pending invitation''))
                    else (d \<lparr> invitations :=
                                map (\<lambda>x. if inv_id x = invId then x \<lparr> inv_status := CANCELLED \<rparr>
                                          else x) (invitations d) \<rparr>,
                          Inr ()))))"

subsection \<open>Responding to an invitation\<close>

text \<open>
  \<open>PATCH /api/mdt/invitations/[id]\<close> reads the caller, the invitation and the required
  specialties of its MDT and checks them; then it opens a transaction for the writes.
  \<open>respond_read\<close> is the part before the transaction: it returns the error response, or
  the caller and the invitation as read.
\<close>

definition respond_read ::
  "db \<Rightarrow> string option \<Rightarrow> nat \<Rightarrow> invitation_status \<Rightarrow> http_error + (user \<times> invitation)" where
  "respond_read d session invId status =
     (case session of
        None \<Rightarrow> Inl (HttpError 401 ''Unauthorized'')
      | Some e \<Rightarrow>
          if status \<noteq> ACCEPTED \<and> status \<noteq> DECLINED then Inl (HttpError 400 ''Invalid status'')
          else
            (case findUserByEmail d e of
               None \<Rightarrow> Inl (HttpError 404 ''User not found'')
             | Some u \<Rightarrow>
                 (case findInvitation d invId of
                    None \<Rightarrow> Inl (HttpError 404 ''Invitation not found'')
                  | Some invitation \<Rightarrow>
                      if inv_receiverId invitation \<noteq> user_id u
                      then Inl (HttpError 403 ''Not authorized to respond to this invitation'')
                      else if inv_status invitation \<noteq> PENDING
                      then Inl (HttpError 400 ''Invitation has already been responded to'')
                      else
                        let requiredSpecialty =
                              find (\<lambda>rs. Some (ms_specialtyId rs) = inv_specialtyId invitation
                                          \<and> \<not> ms_filled rs)
                                (filter (\<lambda>rs. ms_mdtId rs = inv_mdtId invitation) (mdtSpecialties d))
                        in if status = ACCEPTED \<and> requiredSpecialty = None
                           then Inl (HttpError 400 ''This specialty position has already been filled'')
                           else Inr (u, invitation))))"

text \<open>\<open>tx.mDTInvitation.update({ where: { id }, data: { status } })\<close>\<close>

definition invitation_update ::
  "db \<Rightarrow> nat \<Rightarrow> invitation_status \<Rightarrow> prisma_error + (db \<times> invitation)" where
  "invitation_update tx invId status =
     (case findInvitation tx invId of
        None \<Rightarrow> Inl RecordNotFound
      | Some r \<Rightarrow>
          Inr (tx \<lparr> invitations :=
                     map (\<lambda>x. if inv_id x = invId then x \<lparr> inv_status := status \<rparr> else x)
                       (invitations tx) \<rparr>,
               r \<lparr> inv_status := status \<rparr>))"

text \<open>
  \<open>tx.mDTSpecialty.update({ where: { mdtId_specialtyId }, data: { filled: true } })\<close>;
  the non-null assertion \<open>invitation.specialtyId!\<close> hands a null key to the mapper, which
  refuses it.
\<close>

definition mdtSpecialty_fill :: "db \<Rightarrow> nat \<Rightarrow> int option \<Rightarrow> prisma_error + db" where
  "mdtSpecialty_fill tx mdtId spec =
     (case spec of
        None \<Rightarrow> Inl ArgumentMissing
      | Some s \<Rightarrow>
          if \<not> list_ex (\<lambda>r. ms_mdtId r = mdtId \<and> ms_specialtyId r = s) (mdtSpecialties tx)
          then Inl RecordNotFound
          else Inr (tx \<lparr> mdtSpecialties :=
                      map (\<lambda>r. if ms_mdtId r = mdtId \<and> ms_specialtyId r = s
                                then r \<lparr> ms_filled := True \<rparr> else r)
                        (mdtSpecialties tx) \<rparr>))"

text \<open>
  \<open>tx.mDTInvitation.updateMany\<close>: the other PENDING invitations of the same MDT and
  specialty become CANCELLED.
\<close>

definition cancel_other_invitations :: "db \<Rightarrow> nat \<Rightarrow> nat \<Rightarrow> int option \<Rightarrow> db" where
  "cancel_other_invitations tx invId mdtId spec =
     tx \<lparr> invitations :=
            map (\<lambda>x. if inv_mdtId x = mdtId \<and> inv_specialtyId x = spec
                         \<and> inv_status x = PENDING \<and> inv_id x \<noteq> invId
                      then x \<lparr> inv_status := CANCELLED \<rparr> else x)
              (invitations tx) \<rparr>"

text \<open>
  The callback of the transaction of the respond route; \<open>u\<close> and \<open>invitation\<close> are the
  caller and the invitation that the handler read before the transaction.
\<close>

definition respond_tx ::
  "db \<Rightarrow> nat \<Rightarrow> invitation_status \<Rightarrow> user \<Rightarrow> invitation \<Rightarrow> prisma_error + (db \<times> invitation)" where
  "respond_tx tx invId status u invitation =
     (case invitation_update tx invId status of
        Inl e \<Rightarrow> Inl e
      | Inr (tx1, updatedInvitation) \<Rightarrow>
          if status = ACCEPTED
          then (case mdt_connect_members tx1 (inv_mdtId invitation) [user_id u] of
                  Inl e \<Rightarrow> Inl e
                | Inr tx2 \<Rightarrow>
                    (case mdtSpecialty_fill tx2 (inv_mdtId invitation) (inv_specialtyId invitation) of
                       Inl e \<Rightarrow> Inl e
                     | Inr tx3 \<Rightarrow>
                         Inr (cancel_other_invitations tx3 invId (inv_mdtId invitation)
                                (inv_specialtyId invitation),
                              updatedInvitation)))
          else Inr (tx1, updatedInvitation))"

text \<open>
  The transaction on the outcome of the reads: it commits the store of its callback, or
  keeps the store it started from when the callback throws (the handler answers 500).
\<close>

definition respond_commit ::
  "db \<Rightarrow> nat \<Rightarrow> invitation_status \<Rightarrow> http_error + (user \<times> invitation)
     \<Rightarrow> db \<times> (http_error + invitation)" where
  "respond_commit d invId status r =
     (case r of
        Inl err \<Rightarrow> (d, Inl err)
      | Inr (u, invitation) \<Rightarrow>
          (case respond_tx d invId status u invitation of
             Inl e \<Rightarrow> (d, Inl (HttpError 500 ''Failed to update invitation''))
           | Inr (d', updated) \<Rightarrow> (d', Inr updated)))"

text \<open>One request to the respond route, served alone.\<close>

definition PATCH_invitation ::
  "db \<Rightarrow> string option \<Rightarrow> nat \<Rightarrow> invitation_status \<Rightarrow> db \<times> (http_error + invitation)" where
  "PATCH_invitation d session invId status =
     respond_commit d invId status (respond_read d session invId status)"

text \<open>
  Two ACCEPTED requests served at the same time, in the schedule where both handlers finish
  their reads before either transaction starts; each transaction runs alone, the first
  request's before the second's. The result is the store after both and the two responses.
\<close>

definition respond_both_read_first ::
  "db \<Rightarrow> string option \<times> nat \<Rightarrow> string option \<times> nat
     \<Rightarrow> db \<times> (http_error + invitation) \<times> (http_error + invitation)" where
  "respond_both_read_first d a b =
     (let ra = respond_read d (fst a) (snd a) ACCEPTED;
          rb = respond_read d (fst b) (snd b) ACCEPTED;
          (d1, outa) = respond_commit d (snd a) ACCEPTED ra;
          (d2, outb) = respond_commit d1 (snd b) ACCEPTED rb
      in (d2, outa, outb))"

section \<open>Sign-up validation\<close>

text \<open>
  The body of \<open>POST /api/auth/signup\<close>; a field is \<open>None\<close> when it is absent or not of the
  type the schema asks for.
\<close>

record signup_body =
  sb_firstName :: "js_string option"
  sb_lastName :: "js_string option"
  sb_email :: "js_string option"
  sb_password :: "js_string option"
  sb_specialties :: "js_string list option"
  sb_userType :: "user_type option"
  sb_hospital :: "js_string option"
  sb_referralCode :: "js_string option"
  sb_professionalRegistrationNumber :: "js_string option"

text \<open>\<open>z.string().min(n)\<close>\<close>

definition string_min :: "nat \<Rightarrow> js_string option \<Rightarrow> bool" where
  "string_min n x = (case x of None \<Rightarrow> False | Some s \<Rightarrow> n \<le> length s)"

text \<open>
  The schemas of the route. \<open>is_email\<close> is the validation library's test of
  \<open>z.string().email()\<close>.
\<close>

definition baseSignUpSchema :: "(js_string \<Rightarrow> bool) \<Rightarrow> signup_body \<Rightarrow> bool" where
  "baseSignUpSchema is_email b \<longleftrightarrow>
     string_min 2 (sb_firstName b) \<and>
     string_min 2 (sb_lastName b) \<and>
     (case sb_email b of None \<Rightarrow> False | Some e \<Rightarrow> is_email e) \<and>
     string_min 8 (sb_password b) \<and>
     sb_specialties b \<noteq> None \<and>
     sb_userType b \<noteq> None"

definition localSignUpSchema :: "(js_string \<Rightarrow> bool) \<Rightarrow> signup_body \<Rightarrow> bool" where
  "localSignUpSchema is_email b \<longleftrightarrow>
     baseSignUpSchema is_email b \<and> string_min 1 (sb_hospital b) \<and> string_min 1 (sb_referralCode b)"

definition externalSignUpSchema :: "(js_string \<Rightarrow> bool) \<Rightarrow> signup_body \<Rightarrow> bool" where
  "externalSignUpSchema is_email b \<longleftrightarrow>
     baseSignUpSchema is_email b \<and> string_min 1 (sb_professionalRegistrationNumber b)"

text \<open>
  The validation step of the route: the validated data, or the 400 response that the
  handler makes of the schema's error.
\<close>

definition signup_validate :: "(js_string \<Rightarrow> bool) \<Rightarrow> signup_body \<Rightarrow> http_error + signup_body" where
  "signup_validate is_email b =
     (if (if sb_userType b = Some LOCAL then localSignUpSchema is_email b
          else externalSignUpSchema is_email b)
      then Inr b else Inl (HttpError 400 ''Invalid data''))"

text \<open>
  The password rule of the sign-up form (\<open>external_signup/page.tsx\<close>): at least 8 code
  units, and the regular expression \<open>/^(?=.*[a-z])(?=.*[A-Z])(?=.*\d)/\<close>, whose \<open>.\<close> stops
  at a line terminator.
\<close>

definition is_line_terminator :: "16 word \<Rightarrow> bool" where
  "is_line_terminator c \<longleftrightarrow> c = 0x000A \<or> c = 0x000D \<or> c = 0x2028 \<or> c = 0x2029"

definition form_password_ok :: "js_string \<Rightarrow> bool" where
  "form_password_ok p \<longleftrightarrow>
     8 \<le> length p \<and>
     (let line = takeWhile (\<lambda>c. \<not> is_line_terminator c) p
      in list_ex (\<lambda>c. 0x61 \<le> c \<and> c \<le> 0x7A) line \<and>
         list_ex (\<lambda>c. 0x41 \<le> c \<and> c \<le> 0x5A) line \<and>
         list_ex (\<lambda>c. 0x30 \<le> c \<and> c \<le> 0x39) line)"

section \<open>An example store\<close>

text \<open>
  The scenario of the specification: the local user Alice, referred by the external user
  Bob, and the external specialists Carol (Cardiology) and Dave (Oncology, Cardiology);
  Erin is a local user who takes no part in the case. The catalog is the seeded one, with
  Cardiology as key 1 and Oncology as key 8.
\<close>

definition alice :: user where
  "alice = \<lparr> user_id = 1, user_email = ''alice@local.example'', firstName = ''Alice'',
             lastName = ''Amin'', userType = LOCAL, specialties = [4] \<rparr>"

definition bob :: user where
  "bob = \<lparr> user_id = 2, user_email = ''bob@abroad.example'', firstName = ''Bob'',
           lastName = ''Berg'', userType = EXTERNAL, specialties = [] \<rparr>"

definition carol :: user where
  "carol = \<lparr> user_id = 3, user_email = ''carol@abroad.example'', firstName = ''Carol'',
             lastName = ''Cruz'', userType = EXTERNAL, specialties = [1] \<rparr>"

definition dave :: user where
  "dave = \<lparr> user_id = 4, user_email = ''dave@abroad.example'', firstName = ''Dave'',
            lastName = ''Diaz'', userType = EXTERNAL, specialties = [8, 1] \<rparr>"

definition erin :: user where
  "erin = \<lparr> user_id = 5, user_email = ''erin@local.example'', firstName = ''Erin'',
            lastName = ''Eid'', userType = LOCAL, specialties = [] \<rparr>"

definition store0 :: db where
  "store0 = \<lparr> specialtyCatalog = [1, 2, 3, 4, 5, 6, 7, 8, 9, 10, 11, 12],
              users = [alice, bob, carol, dave, erin],
              mdts = [], patientProfiles = [], mdtSpecialties = [], invitations = [],
              messages = [] \<rparr>"

definition case_body :: create_mdt_body where
  "case_body = \<lparr> body_name = ''Case 1'',
                 body_patientProfile =
                   \<lparr> pp_age = 54, pp_gender = FEMALE, pp_uniqueId = ''P-1'',
                     pp_medicalHistory = ''hypertension'', pp_caseSummary = ''chest pain'',
                     pp_medications = [\<lparr> med_name = ''aspirin'', med_dosage = ''75mg'' \<rparr>] \<rparr>,
                 body_localDoctors = [],
                 body_requiredSpecialties = [1, 8] \<rparr>"

text \<open>
  The store after Alice has created that case: the MDT 1 with Alice as its member, the
  slots for Cardiology and Oncology, and the PENDING invitations 1 (Carol, Cardiology) and 2
  (Dave, Oncology: the first of his specialties that the case requires).
\<close>

definition case_mdt :: mdt where
  "case_mdt = \<lparr> mdt_id = 1, mdt_name = ''Case 1'', creatorId = 1, mdt_state = ACTIVE,
                members = [1] \<rparr>"

definition store_case :: db where
  "store_case =
     store0 \<lparr> mdts := [case_mdt],
              patientProfiles :=
                [\<lparr> pp_age = 54, pp_gender = FEMALE, pp_uniqueId = ''P-1'',
                   pp_medicalHistory = ''hypertension'', pp_caseSummary = ''chest pain'',
                   pp_medications = [\<lparr> med_name = ''aspirin'', med_dosage = ''75mg'' \<rparr>],
                   pp_mdtId = 1 \<rparr>],
              mdtSpecialties :=
                [\<lparr> ms_mdtId = 1, ms_specialtyId = 1, ms_filled = False \<rparr>,
                 \<lparr> ms_mdtId = 1, ms_specialtyId = 8, ms_filled = False \<rparr>],
              invitations :=
                [\<lparr> inv_id = 1, inv_mdtId = 1, inv_senderId = 1, inv_receiverId = 3,
                   inv_specialtyId = Some 1, inv_status = PENDING \<rparr>,
                 \<lparr> inv_id = 2, inv_mdtId = 1, inv_senderId = 1, inv_receiverId = 4,
                   inv_specialtyId = Some 8, inv_status = PENDING \<rparr>] \<rparr>"

text \<open>
  A store in which the case requires Cardiology alone, so that the invitations of Carol and
  of Dave are for the same slot.
\<close>

definition carol_invitation :: invitation where
  "carol_invitation = \<lparr> inv_id = 1, inv_mdtId = 1, inv_senderId = 1, inv_receiverId = 3,
                        inv_specialtyId = Some 1, inv_status = PENDING \<rparr>"

definition dave_invitation :: invitation where
  "dave_invitation = \<lparr> inv_id = 2, inv_mdtId = 1, inv_senderId = 1, inv_receiverId = 4,
                       inv_specialtyId = Some 1, inv_status = PENDING \<rparr>"

definition store1 :: db where
  "store1 =
     store0 \<lparr> mdts := [case_mdt],
              mdtSpecialties := [\<lparr> ms_mdtId = 1, ms_specialtyId = 1, ms_filled = False \<rparr>],
              invitations := [carol_invitation, dave_invitation] \<rparr>"

text \<open>The store after Dave has accepted his invitation in \<open>store1\<close>.\<close>

definition store_accepted :: db where
  "store_accepted =
     store0 \<lparr> mdts := [case_mdt \<lparr> members := [4, 1] \<rparr>],
              mdtSpecialties := [\<lparr> ms_mdtId = 1, ms_specialtyId = 1, ms_filled = True \<rparr>],
              invitations := [carol_invitation \<lparr> inv_status := CANCELLED \<rparr>,
                              dave_invitation \<lparr> inv_status := ACCEPTED \<rparr>] \<rparr>"

text \<open>
  The store after Alice has invited Bob to the case of \<open>store1\<close> by his address: the
  invitation 3.
\<close>

definition bob_invitation :: invitation where
  "bob_invitation = \<lparr> inv_id = 3, inv_mdtId = 1, inv_senderId = 1, inv_receiverId = 2,
                      inv_specialtyId = None, inv_status = PENDING \<rparr>"

definition store_invited :: db where
  "store_invited = store1 \<lparr> invitations := [carol_invitation, dave_invitation, bob_invitation] \<rparr>"

text \<open>
  The store after Dave and Carol have both accepted in \<open>store1\<close>, and the store after Carol
  has set her cancelled invitation to ACCEPTED in \<open>store_accepted\<close>.
\<close>

definition store_both_accepted :: db where
  "store_both_accepted =
     store0 \<lparr> mdts := [case_mdt \<lparr> members := [3, 4, 1] \<rparr>],
              mdtSpecialties := [\<lparr> ms_mdtId = 1, ms_specialtyId = 1, ms_filled = True \<rparr>],
              invitations := [carol_invitation \<lparr> inv_status := ACCEPTED \<rparr>,
                              dave_invitation \<lparr> inv_status := ACCEPTED \<rparr>] \<rparr>"

text \<open>
  A sign-up body of an external user whose password is \<open>aaaaaaaa\<close>, with the address
  \<open>n@x.io\<close>.
\<close>

definition weak_email :: js_string where
  "weak_email = [0x6E, 0x40, 0x78, 0x2E, 0x69, 0x6F]"

definition weak_signup :: signup_body where
  "weak_signup = \<lparr> sb_firstName = Some [0x4E, 0x6F, 0x72],
                   sb_lastName = Some [0x41, 0x6C, 0x69],
                   sb_email = Some weak_email,
                   sb_password = Some (replicate 8 0x61),
                   sb_specialties = Some [[0x31]],
                   sb_userType = Some EXTERNAL,
                   sb_hospital = None,
                   sb_referralCode = None,
                   sb_professionalRegistrationNumber = Some [0x37, 0x31] \<rparr>"


section \<open>Properties of the messaging log\<close>



















section \<open>Properties of the respond route\<close>

lemma find_map_update:
  assumes "\<And>x. key (f x) = key x"
  shows "find (\<lambda>x. key x = k) (map (\<lambda>x. if key x = k then f x else x) xs)
         = map_option f (find (\<lambda>x. key x = k) xs)"
  using assms by (induction xs) auto

text \<open>What the handler has established when its reads let an ACCEPTED request through.\<close>

lemma respond_read_accepted:
  assumes "respond_read d (Some e) invId ACCEPTED = Inr (u, invitation)"
  shows "findUserByEmail d e = Some u \<and> findInvitation d invId = Some invitation \<and>
         inv_receiverId invitation = user_id u \<and> inv_status invitation = PENDING \<and>
         (\<exists>s. inv_specialtyId invitation = Some s \<and>
              list_ex (\<lambda>rs. ms_mdtId rs = inv_mdtId invitation \<and> ms_specialtyId rs = s \<and>
                             \<not> ms_filled rs) (mdtSpecialties d))"
proof -
  from assms have u: "findUserByEmail d e = Some u"
    and i: "findInvitation d invId = Some invitation"
    and r: "inv_receiverId invitation = user_id u"
    and p: "inv_status invitation = PENDING"
    and f: "find (\<lambda>rs. Some (ms_specialtyId rs) = inv_specialtyId invitation \<and> \<not> ms_filled rs)
              (filter (\<lambda>rs. ms_mdtId rs = inv_mdtId invitation) (mdtSpecialties d)) \<noteq> None"
    by (auto simp: respond_read_def Let_def split: option.splits if_splits)
  from f obtain rs where "rs \<in> set (mdtSpecialties d)" "ms_mdtId rs = inv_mdtId invitation"
    "Some (ms_specialtyId rs) = inv_specialtyId invitation" "\<not> ms_filled rs"
    by (auto simp: find_None_iff)
  then have "\<exists>s. inv_specialtyId invitation = Some s \<and>
              list_ex (\<lambda>rs. ms_mdtId rs = inv_mdtId invitation \<and> ms_specialtyId rs = s \<and>
                             \<not> ms_filled rs) (mdtSpecialties d)"
    by (auto simp: list_ex_iff intro!: exI [of _ "ms_specialtyId rs"])
  with u i r p show ?thesis
    by simp
qed

lemma findMDT_connected:
  "findMDT (tx \<lparr> mdts := map (\<lambda>x. if mdt_id x = mdtId
                                then x \<lparr> members := List.union ids (members x) \<rparr> else x) (mdts tx) \<rparr>) mdtId
   = map_option (\<lambda>x. x \<lparr> members := List.union ids (members x) \<rparr>) (findMDT tx mdtId)"
  by (simp add: findMDT_def find_map_update [where key = mdt_id])

text \<open>The writes of a transaction of the respond route that commits an acceptance.\<close>

lemma respond_tx_accepted:
  assumes "respond_tx d invId ACCEPTED u invitation = Inr (d', r)"
  shows "invitations d' =
           map (\<lambda>x. if inv_id x = invId then x \<lparr> inv_status := ACCEPTED \<rparr>
                     else if inv_mdtId x = inv_mdtId invitation
                             \<and> inv_specialtyId x = inv_specialtyId invitation
                             \<and> inv_status x = PENDING
                     then x \<lparr> inv_status := CANCELLED \<rparr> else x) (invitations d)"
    and "mdts d' = map (\<lambda>x. if mdt_id x = inv_mdtId invitation
                                then x \<lparr> members := List.union [user_id u] (members x) \<rparr> else x) (mdts d)"
    and "mdtSpecialties d' =
           map (\<lambda>rs. if ms_mdtId rs = inv_mdtId invitation
                         \<and> Some (ms_specialtyId rs) = inv_specialtyId invitation
                      then rs \<lparr> ms_filled := True \<rparr> else rs) (mdtSpecialties d)"
    and "users d' = users d" "messages d' = messages d" "patientProfiles d' = patientProfiles d"
      "specialtyCatalog d' = specialtyCatalog d"
    and "findMDT d (inv_mdtId invitation) \<noteq> None"
    and "findInvitation d invId \<noteq> None"
  using assms
  by (auto simp: respond_tx_def invitation_update_def mdtSpecialty_fill_def
      cancel_other_invitations_def mdt_connect_members_def findMDT_def
      split: option.splits sum.splits if_splits prod.splits)

text \<open>
  C1. A request to the respond route with ACCEPTED either fails and leaves the store as it
  was, or succeeds, and then the store is the one committed by the single transaction of the
  handler (\<open>respond_tx\<close>), in which: the invitation is ACCEPTED; every other invitation
  of the same MDT and specialty that was PENDING is CANCELLED, and no other invitation
  changes; the responder is a member of the MDT; and the slot of the MDT for the
  invitation's specialty is filled.
\<close>

theorem respond_accepted_effects:
  assumes "PATCH_invitation d (Some e) invId ACCEPTED = (d', res)"
  shows "case res of
           Inl err \<Rightarrow> d' = d
         | Inr r \<Rightarrow>
             (\<exists>u invitation s m.
                findUserByEmail d e = Some u \<and> findInvitation d invId = Some invitation \<and>
                inv_receiverId invitation = user_id u \<and> inv_specialtyId invitation = Some s \<and>
                respond_tx d invId ACCEPTED u invitation = Inr (d', r) \<and>
                invitations d' =
                  map (\<lambda>x. if inv_id x = invId then x \<lparr> inv_status := ACCEPTED \<rparr>
                            else if inv_mdtId x = inv_mdtId invitation \<and> inv_specialtyId x = Some s
                                    \<and> inv_status x = PENDING
                            then x \<lparr> inv_status := CANCELLED \<rparr> else x) (invitations d) \<and>
                findMDT d' (inv_mdtId invitation) = Some m \<and> user_id u \<in> set (members m) \<and>
                mdtSpecialties d' =
                  map (\<lambda>rs. if ms_mdtId rs = inv_mdtId invitation \<and> ms_specialtyId rs = s
                             then rs \<lparr> ms_filled := True \<rparr> else rs) (mdtSpecialties d) \<and>
                list_ex (\<lambda>rs. ms_mdtId rs = inv_mdtId invitation \<and> ms_specialtyId rs = s \<and>
                               ms_filled rs) (mdtSpecialties d'))"
proof (cases res)
  case (Inl err)
  with assms show ?thesis
    by (auto simp: PATCH_invitation_def respond_commit_def split: sum.splits prod.splits)
next
  case (Inr r)
  with assms obtain u invitation where
    read: "respond_read d (Some e) invId ACCEPTED = Inr (u, invitation)"
    and tx: "respond_tx d invId ACCEPTED u invitation = Inr (d', r)"
    by (auto simp: PATCH_invitation_def respond_commit_def split: sum.splits prod.splits)
  from respond_read_accepted [OF read] obtain s where
    u: "findUserByEmail d e = Some u" and i: "findInvitation d invId = Some invitation"
    and rcv: "inv_receiverId invitation = user_id u" and s: "inv_specialtyId invitation = Some s"
    and slot: "list_ex (\<lambda>rs. ms_mdtId rs = inv_mdtId invitation \<and> ms_specialtyId rs = s \<and>
                             \<not> ms_filled rs) (mdtSpecialties d)"
    by blast
  note w = respond_tx_accepted [OF tx]
  have invs: "invitations d' =
                  map (\<lambda>x. if inv_id x = invId then x \<lparr> inv_status := ACCEPTED \<rparr>
                            else if inv_mdtId x = inv_mdtId invitation \<and> inv_specialtyId x = Some s
                                    \<and> inv_status x = PENDING
                            then x \<lparr> inv_status := CANCELLED \<rparr> else x) (invitations d)"
    using w(1) s by simp
  from w(8) obtain m0 where m0: "findMDT d (inv_mdtId invitation) = Some m0"
    by auto
  have "findMDT d' (inv_mdtId invitation)
        = map_option (\<lambda>x. x \<lparr> members := List.union [user_id u] (members x) \<rparr>)
            (findMDT d (inv_mdtId invitation))"
    using w(2) by (simp add: findMDT_def find_map_update [where key = mdt_id])
  with m0 have m: "findMDT d' (inv_mdtId invitation)
                   = Some (m0 \<lparr> members := List.union [user_id u] (members m0) \<rparr>)"
    by simp
  have mem: "user_id u \<in> set (members (m0 \<lparr> members := List.union [user_id u] (members m0) \<rparr>))"
    by simp
  have specs: "mdtSpecialties d' =
                  map (\<lambda>rs. if ms_mdtId rs = inv_mdtId invitation \<and> ms_specialtyId rs = s
                             then rs \<lparr> ms_filled := True \<rparr> else rs) (mdtSpecialties d)"
    using w(3) s by simp
  from slot obtain rs where rs: "rs \<in> set (mdtSpecialties d)" "ms_mdtId rs = inv_mdtId invitation"
    "ms_specialtyId rs = s"
    by (auto simp: list_ex_iff)
  then have "rs \<lparr> ms_filled := True \<rparr> \<in> set (mdtSpecialties d')"
    unfolding specs by (auto simp: image_iff intro!: bexI [of _ rs])
  with rs have filled: "list_ex (\<lambda>rs. ms_mdtId rs = inv_mdtId invitation \<and> ms_specialtyId rs = s \<and>
                               ms_filled rs) (mdtSpecialties d')"
    unfolding list_ex_iff by (intro bexI [of _ "rs \<lparr> ms_filled := True \<rparr>"]) simp_all
  show ?thesis
    unfolding Inr sum.case
    using u i rcv s tx invs m mem specs filled by blast
qed

lemmas ex_defs = store0_def store1_def case_mdt_def alice_def bob_def carol_def
  dave_def erin_def carol_invitation_def dave_invitation_def

lemma dave_accepts:
  "PATCH_invitation store1 (Some ''dave@abroad.example'') 2 ACCEPTED
   = (store_accepted, Inr (dave_invitation \<lparr> inv_status := ACCEPTED \<rparr>))"
  by (simp add: PATCH_invitation_def respond_commit_def respond_read_def respond_tx_def
      invitation_update_def mdtSpecialty_fill_def cancel_other_invitations_def
      mdt_connect_members_def findUserByEmail_def findInvitation_def findMDT_def
      store_accepted_def ex_defs List.union_def List.insert_def)

theorem respond_accepted_effects_witness:
  "PATCH_invitation store1 (Some ''dave@abroad.example'') 2 ACCEPTED
     = (store_accepted, Inr (dave_invitation \<lparr> inv_status := ACCEPTED \<rparr>)) \<and>
   map inv_status (invitations store_accepted) = [CANCELLED, ACCEPTED] \<and>
   (\<exists>u invitation s m.
      findUserByEmail store1 ''dave@abroad.example'' = Some u \<and>
      findInvitation store1 2 = Some invitation \<and>
      respond_tx store1 2 ACCEPTED u invitation
        = Inr (store_accepted, dave_invitation \<lparr> inv_status := ACCEPTED \<rparr>) \<and>
      findMDT store_accepted (inv_mdtId invitation) = Some m \<and> user_id u \<in> set (members m) \<and>
      list_ex (\<lambda>rs. ms_mdtId rs = inv_mdtId invitation \<and> ms_specialtyId rs = s \<and> ms_filled rs)
        (mdtSpecialties store_accepted))"
proof -
  have "map inv_status (invitations store_accepted) = [CANCELLED, ACCEPTED]"
    by (simp add: store_accepted_def)
  with respond_accepted_effects [OF dave_accepts] dave_accepts show ?thesis
    unfolding sum.case by blast
qed

section \<open>Properties of the direct invitation\<close>

lemma fresh_id_notin: "fresh_id ids \<notin> set ids"
proof
  assume "fresh_id ids \<in> set ids"
  then have "fresh_id ids \<le> Max (set (0 # ids))"
    by (intro Max_ge) auto
  also have "\<dots> = fold max ids 0"
    by (rule Max.set_eq_fold)
  finally show False
    by (simp add: fresh_id_def)
qed

lemma find_append_fresh:
  assumes "k \<notin> key ` set xs"
  shows "find (\<lambda>x. key x = k) (xs @ ys) = find (\<lambda>x. key x = k) ys"
  using assms by (induction xs) auto

lemma respond_read_no_specialty:
  assumes "findInvitation d invId = Some i" and "inv_specialtyId i = None"
  shows "\<exists>err. respond_read d session invId ACCEPTED = Inl err"
  using assms
  by (auto simp: respond_read_def Let_def find_None_iff split: option.splits)

text \<open>
  C10. An invitation made by the direct-invite route has no specialty and is PENDING. For
  such an invitation, in any later store that still holds it (whatever the state of the
  slots of its MDT), an ACCEPTED request to the respond route never succeeds and changes
  nothing; when it is the receiver who responds, the answer is the 400 error
  "This specialty position has already been filled".
\<close>

theorem direct_invitation_never_accepted:
  assumes "POST_invitations d session mdtId receiverEmail = (d', Inr row)"
  shows "inv_specialtyId row = None \<and> inv_status row = PENDING \<and>
         invitations d' = invitations d @ [row] \<and> findInvitation d' (inv_id row) = Some row \<and>
         (\<exists>receiver. findUserByEmail d receiverEmail = Some receiver \<and>
                     inv_receiverId row = user_id receiver) \<and>
         (\<forall>d2 e u. findInvitation d2 (inv_id row) = Some row \<and> findUserByEmail d2 e = Some u \<and>
                    user_id u = inv_receiverId row \<longrightarrow>
                    PATCH_invitation d2 (Some e) (inv_id row) ACCEPTED
                    = (d2, Inl (HttpError 400 ''This specialty position has already been filled''))) \<and>
         (\<forall>d2 s. findInvitation d2 (inv_id row) = Some row \<longrightarrow>
                  (\<exists>err. PATCH_invitation d2 s (inv_id row) ACCEPTED = (d2, Inl err)))"
proof -
  from assms have "\<exists>sender receiver. findUserByEmail d receiverEmail = Some receiver \<and>
      invitation_create d mdtId sender (user_id receiver) None = Inr (d', row)"
    by (auto simp: POST_invitations_def split: option.splits if_splits sum.splits prod.splits)
  then obtain sender receiver where
    rcv: "findUserByEmail d receiverEmail = Some receiver"
    and cr: "invitation_create d mdtId sender (user_id receiver) None = Inr (d', row)"
    by blast
  from cr have row: "row = \<lparr> inv_id = fresh_id (map inv_id (invitations d)), inv_mdtId = mdtId,
      inv_senderId = sender, inv_receiverId = user_id receiver,
      inv_specialtyId = None, inv_status = PENDING \<rparr>"
    and d': "d' = d \<lparr> invitations := invitations d @ [row] \<rparr>"
    by (auto simp: invitation_create_def Let_def split: if_splits)
  have spec: "inv_specialtyId row = None" and pend: "inv_status row = PENDING"
    and rid: "inv_receiverId row = user_id receiver"
    by (simp_all add: row)
  have "inv_id row \<notin> inv_id ` set (invitations d)"
    using fresh_id_notin [of "map inv_id (invitations d)"] by (simp add: row)
  then have found: "findInvitation d' (inv_id row) = Some row"
    by (simp add: findInvitation_def d' find_append_fresh [where key = inv_id])
  have filled: "PATCH_invitation d2 (Some e) (inv_id row) ACCEPTED
                = (d2, Inl (HttpError 400 ''This specialty position has already been filled''))"
    if "findInvitation d2 (inv_id row) = Some row" "findUserByEmail d2 e = Some u"
      "user_id u = inv_receiverId row" for d2 e u
    using that spec pend
    by (simp add: PATCH_invitation_def respond_commit_def respond_read_def find_None_iff)
  have never: "\<exists>err. PATCH_invitation d2 s (inv_id row) ACCEPTED = (d2, Inl err)"
    if "findInvitation d2 (inv_id row) = Some row" for d2 s
    using respond_read_no_specialty [OF that spec, of s]
    by (auto simp: PATCH_invitation_def respond_commit_def)
  from spec pend d' found rcv rid filled never show ?thesis
    by auto
qed

lemma alice_invites_bob:
  "POST_invitations store1 (Some ''alice@local.example'') 1 ''bob@abroad.example''
   = (store_invited, Inr bob_invitation)"
  by (simp add: POST_invitations_def invitation_create_def findUserByEmail_def findMDT_def
      fresh_id_def Let_def store_invited_def bob_invitation_def ex_defs)

theorem direct_invitation_never_accepted_witness:
  "POST_invitations store1 (Some ''alice@local.example'') 1 ''bob@abroad.example''
     = (store_invited, Inr bob_invitation) \<and>
   inv_specialtyId bob_invitation = None \<and>
   PATCH_invitation store_invited (Some ''bob@abroad.example'') 3 ACCEPTED
     = (store_invited, Inl (HttpError 400 ''This specialty position has already been filled''))"
proof -
  have found: "findInvitation store_invited (inv_id bob_invitation) = Some bob_invitation"
    by (simp add: findInvitation_def store_invited_def bob_invitation_def ex_defs)
  have bob: "findUserByEmail store_invited ''bob@abroad.example'' = Some bob"
    by (simp add: findUserByEmail_def store_invited_def ex_defs)
  have rcv: "user_id bob = inv_receiverId bob_invitation"
    by (simp add: bob_def bob_invitation_def)
  have id: "inv_id bob_invitation = 3"
    by (simp add: bob_invitation_def)
  from direct_invitation_never_accepted [OF alice_invites_bob] found bob rcv
  have "inv_specialtyId bob_invitation = None"
    and "PATCH_invitation store_invited (Some ''bob@abroad.example'') (inv_id bob_invitation) ACCEPTED
     = (store_invited, Inl (HttpError 400 ''This specialty position has already been filled''))"
    by blast+
  with alice_invites_bob id show ?thesis
    by simp
qed

section \<open>Properties of the MDT creation\<close>

lemma map_update_fresh:
  assumes "k \<notin> key ` set xs"
  shows "map (\<lambda>x. if key x = k then f x else x) xs = xs"
  using assms by (induction xs) auto

lemma create_mdtSpecialties_Inr:
  assumes "create_mdtSpecialties tx i ss = Inr tx'"
  shows "tx' = tx \<lparr> mdtSpecialties := mdtSpecialties tx @
                     map (\<lambda>s. \<lparr> ms_mdtId = i, ms_specialtyId = s, ms_filled = False \<rparr>) ss \<rparr>
         \<and> set ss \<subseteq> set (specialtyCatalog tx)"
  using assms
proof (induction ss arbitrary: tx)
  case Nil
  then show ?case by simp
next
  case (Cons s ss)
  let ?tx1 = "tx \<lparr> mdtSpecialties := mdtSpecialties tx @
                      [\<lparr> ms_mdtId = i, ms_specialtyId = s, ms_filled = False \<rparr>] \<rparr>"
  from Cons.prems have s: "s \<in> set (specialtyCatalog tx)"
    and rest: "create_mdtSpecialties ?tx1 i ss = Inr tx'"
    by (auto split: if_splits)
  from Cons.IH [OF rest] s show ?case
    by simp
qed

lemma create_invitations_Inr:
  assumes "create_invitations tx i sender req ds = Inr tx'"
  shows "\<exists>new. tx' = tx \<lparr> invitations := invitations tx @ new \<rparr> \<and>
           map (\<lambda>x. (inv_receiverId x, inv_specialtyId x, inv_status x, inv_mdtId x, inv_senderId x)) new
           = map (\<lambda>doc. (user_id doc, or_null (matchingSpecialty req doc), PENDING, i, sender)) ds"
  using assms
proof (induction ds arbitrary: tx)
  case Nil
  then show ?case by simp
next
  case (Cons doc ds)
  from Cons.prems obtain tx1 row where
    one: "invitation_create tx i sender (user_id doc) (or_null (matchingSpecialty req doc)) = Inr (tx1, row)"
    and rest: "create_invitations tx1 i sender req ds = Inr tx'"
    by (auto split: sum.splits)
  from one have tx1: "tx1 = tx \<lparr> invitations := invitations tx @ [row] \<rparr>"
    and row: "inv_receiverId row = user_id doc"
      "inv_specialtyId row = or_null (matchingSpecialty req doc)"
      "inv_status row = PENDING" "inv_mdtId row = i" "inv_senderId row = sender"
    by (auto simp: invitation_create_def Let_def split: if_splits)
  from Cons.IH [OF rest] obtain new where
    new: "tx' = tx1 \<lparr> invitations := invitations tx1 @ new \<rparr>"
      "map (\<lambda>x. (inv_receiverId x, inv_specialtyId x, inv_status x, inv_mdtId x, inv_senderId x)) new
       = map (\<lambda>doc. (user_id doc, or_null (matchingSpecialty req doc), PENDING, i, sender)) ds"
    by blast
  show ?case
    by (rule exI [of _ "row # new"]) (simp add: new tx1 row)
qed

text \<open>The store and the response of a transaction of the MDT creation that commits.\<close>

lemma create_mdt_tx_Inr:
  assumes "create_mdt_tx d u body = Inr (d', r)"
  defines "m \<equiv> \<lparr> mdt_id = fresh_id (map mdt_id (mdts d)), mdt_name = body_name body,
                  creatorId = user_id u, mdt_state = ACTIVE,
                  members = List.union (user_id u # body_localDoctors body) [] \<rparr>"
  shows "\<exists>new. d' = d \<lparr> mdts := mdts d @ [m],
                        patientProfiles := patientProfiles d @
                          [patient_input.extend (body_patientProfile body)
                             (patient_profile.fields (mdt_id m))],
                        mdtSpecialties := mdtSpecialties d @
                          map (\<lambda>s. \<lparr> ms_mdtId = mdt_id m, ms_specialtyId = s, ms_filled = False \<rparr>)
                            (body_requiredSpecialties body),
                        invitations := invitations d @ new \<rparr> \<and>
               r = Some m \<and>
               map (\<lambda>x. (inv_receiverId x, inv_specialtyId x, inv_status x, inv_mdtId x, inv_senderId x)) new
               = map (\<lambda>doc. (user_id doc, or_null (matchingSpecialty (body_requiredSpecialties body) doc),
                              PENDING, mdt_id m, user_id u))
                   (externalDoctors d (body_requiredSpecialties body)) \<and>
               set (body_requiredSpecialties body) \<subseteq> set (specialtyCatalog d)"
proof -
  define newId where "newId = fresh_id (map mdt_id (mdts d))"
  define newMDT where "newMDT = \<lparr> mdt_id = newId, mdt_name = body_name body,
    creatorId = user_id u, mdt_state = ACTIVE, members = [] \<rparr>"
  define tx1 where "tx1 = d \<lparr> mdts := mdts d @ [newMDT] \<rparr>"
  define req where "req = body_requiredSpecialties body"
  have fresh: "newId \<notin> mdt_id ` set (mdts d)"
    using fresh_id_notin [of "map mdt_id (mdts d)"] by (simp add: newId_def)
  from assms(1) obtain tx2 tx4 tx5 where
    c: "mdt_connect_members tx1 newId (user_id u # body_localDoctors body) = Inr tx2"
    and s: "create_mdtSpecialties
              (tx2 \<lparr> patientProfiles := patientProfiles tx2 @
                  [patient_input.extend (body_patientProfile body) (patient_profile.fields newId)] \<rparr>)
              newId req = Inr tx4"
    and i: "create_invitations tx4 newId (user_id u) req (externalDoctors tx4 req) = Inr tx5"
    and res: "d' = tx5" "r = findMDT tx5 newId"
    unfolding create_mdt_tx_def Let_def newId_def [symmetric] newMDT_def [symmetric]
      tx1_def [symmetric] req_def [symmetric]
    by (auto split: sum.splits)
  have m: "m = newMDT \<lparr> members := List.union (user_id u # body_localDoctors body) (members newMDT) \<rparr>"
    by (simp add: m_def newMDT_def newId_def)
  have mid: "mdt_id m = newId"
    by (simp add: m_def newId_def)
  from c have "tx2 = tx1 \<lparr> mdts := map (\<lambda>x. if mdt_id x = newId
      then x \<lparr> members := List.union (user_id u # body_localDoctors body) (members x) \<rparr> else x)
      (mdts tx1) \<rparr>"
    by (auto simp: mdt_connect_members_def split: option.splits if_splits)
  then have tx2: "tx2 = d \<lparr> mdts := mdts d @ [m] \<rparr>"
    using fresh by (simp add: tx1_def map_update_fresh [where key = mdt_id] m newMDT_def)
  from create_mdtSpecialties_Inr [OF s]
  have tx4: "tx4 = d \<lparr> mdts := mdts d @ [m],
                        patientProfiles := patientProfiles d @
                          [patient_input.extend (body_patientProfile body) (patient_profile.fields newId)],
                        mdtSpecialties := mdtSpecialties d @
                          map (\<lambda>s. \<lparr> ms_mdtId = newId, ms_specialtyId = s, ms_filled = False \<rparr>) req \<rparr>"
    and cat: "set req \<subseteq> set (specialtyCatalog d)"
    by (simp_all add: tx2)
  have docs: "externalDoctors tx4 req = externalDoctors d req"
    by (simp add: externalDoctors_def tx4)
  from create_invitations_Inr [OF i] obtain new where
    tx5: "tx5 = tx4 \<lparr> invitations := invitations tx4 @ new \<rparr>"
    and new: "map (\<lambda>x. (inv_receiverId x, inv_specialtyId x, inv_status x, inv_mdtId x, inv_senderId x)) new
       = map (\<lambda>doc. (user_id doc, or_null (matchingSpecialty req doc), PENDING, newId, user_id u))
           (externalDoctors d req)"
    unfolding docs by blast
  have "findMDT tx5 newId = Some m"
    using fresh mid by (simp add: findMDT_def tx5 tx4 find_append_fresh [where key = mdt_id])
  with res tx5 tx4 new cat show ?thesis
    unfolding mid req_def by (intro exI [of _ new]) simp
qed




text \<open>
  C4. A request to create an MDT either fails and leaves the store as it was, whichever
  step failed, or succeeds, and then the store is the one committed by the single
  transaction of the handler (\<open>create_mdt_tx\<close>): the store before with the ACTIVE MDT
  whose members are the creator and the local doctors of the body, the patient profile
  with its medications, one unfilled slot per required specialty, and one PENDING
  invitation per matching external user.
\<close>

theorem create_mdt_atomic:
  assumes "POST_mdts d session body = (d', res)"
  shows "case res of
           Inl err \<Rightarrow> d' = d
         | Inr r \<Rightarrow>
             (\<exists>u m new.
                create_mdt_tx d u body = Inr (d', r) \<and> r = Some m \<and>
                mdt_state m = ACTIVE \<and> creatorId m = user_id u \<and>
                set (members m) = insert (user_id u) (set (body_localDoctors body)) \<and>
                d' = d \<lparr> mdts := mdts d @ [m],
                         patientProfiles := patientProfiles d @
                           [patient_input.extend (body_patientProfile body)
                              (patient_profile.fields (mdt_id m))],
                         mdtSpecialties := mdtSpecialties d @
                           map (\<lambda>s. \<lparr> ms_mdtId = mdt_id m, ms_specialtyId = s, ms_filled = False \<rparr>)
                             (body_requiredSpecialties body),
                         invitations := invitations d @ new \<rparr> \<and>
                map (\<lambda>x. (inv_receiverId x, inv_status x, inv_mdtId x)) new
                = map (\<lambda>doc. (user_id doc, PENDING, mdt_id m))
                    (externalDoctors d (body_requiredSpecialties body)))"
proof (cases res)
  case (Inl err)
  with assms show ?thesis
    by (auto simp: POST_mdts_def split: option.splits if_splits sum.splits prod.splits)
next
  case (Inr r)
  let ?req = "body_requiredSpecialties body"
  from assms Inr obtain u where tx: "create_mdt_tx d u body = Inr (d', r)"
    by (auto simp: POST_mdts_def split: option.splits if_splits sum.splits prod.splits)
  define m where "m = \<lparr> mdt_id = fresh_id (map mdt_id (mdts d)), mdt_name = body_name body,
    creatorId = user_id u, mdt_state = ACTIVE,
    members = List.union (user_id u # body_localDoctors body) [] \<rparr>"
  from create_mdt_tx_Inr [OF tx, folded m_def] obtain new where
    d': "d' = d \<lparr> mdts := mdts d @ [m],
                  patientProfiles := patientProfiles d @
                    [patient_input.extend (body_patientProfile body)
                       (patient_profile.fields (mdt_id m))],
                  mdtSpecialties := mdtSpecialties d @
                    map (\<lambda>s. \<lparr> ms_mdtId = mdt_id m, ms_specialtyId = s, ms_filled = False \<rparr>) ?req,
                  invitations := invitations d @ new \<rparr>"
    and r: "r = Some m"
    and new: "map (\<lambda>x. (inv_receiverId x, inv_specialtyId x, inv_status x, inv_mdtId x, inv_senderId x)) new
               = map (\<lambda>doc. (user_id doc, or_null (matchingSpecialty ?req doc), PENDING, mdt_id m, user_id u))
                   (externalDoctors d ?req)"
    by blast
  from new have
    "map ((\<lambda>(a, b, c, d, e). (a, c, d)) \<circ>
          (\<lambda>x. (inv_receiverId x, inv_specialtyId x, inv_status x, inv_mdtId x, inv_senderId x))) new
     = map ((\<lambda>(a, b, c, d, e). (a, c, d)) \<circ>
          (\<lambda>doc. (user_id doc, or_null (matchingSpecialty ?req doc), PENDING, mdt_id m, user_id u)))
         (externalDoctors d ?req)"
    unfolding map_map [symmetric] by simp
  then have proj: "map (\<lambda>x. (inv_receiverId x, inv_status x, inv_mdtId x)) new
     = map (\<lambda>doc. (user_id doc, PENDING, mdt_id m)) (externalDoctors d ?req)"
    by (simp add: o_def)
  have "mdt_state m = ACTIVE" "creatorId m = user_id u"
    "set (members m) = insert (user_id u) (set (body_localDoctors body))"
    by (simp_all add: m_def)
  with tx r d' proj show ?thesis
    unfolding Inr sum.case by blast
qed

lemmas creation_defs = POST_mdts_def create_mdt_tx_def mdt_connect_members_def
  invitation_create_def externalDoctors_def matchingSpecialty_def or_null_def
  findUserByEmail_def findMDT_def fresh_id_def Let_def List.union_def List.insert_def
  patient_input.extend_def patient_profile.fields_def

lemma alice_creates_case:
  "POST_mdts store0 (Some ''alice@local.example'') case_body = (store_case, Inr (Some case_mdt))"
  by (simp add: creation_defs store_case_def case_body_def ex_defs)




lemma alice_repeats_specialty:
  "POST_mdts store0 (Some ''alice@local.example'') (case_body \<lparr> body_requiredSpecialties := [1, 1] \<rparr>)
   = (store0, Inl (HttpThrown 500 UniqueConstraintFailed))"
  by (simp add: creation_defs case_body_def ex_defs)

lemma alice_names_unknown_doctor:
  "POST_mdts store0 (Some ''alice@local.example'') (case_body \<lparr> body_localDoctors := [9] \<rparr>)
   = (store0, Inl (HttpThrown 500 RecordNotFound))"
  by (simp add: creation_defs case_body_def ex_defs)

theorem create_mdt_atomic_witness:
  "POST_mdts store0 (Some ''alice@local.example'') (case_body \<lparr> body_requiredSpecialties := [1, 1] \<rparr>)
     = (store0, Inl (HttpThrown 500 UniqueConstraintFailed)) \<and>
   POST_mdts store0 (Some ''alice@local.example'') (case_body \<lparr> body_localDoctors := [9] \<rparr>)
     = (store0, Inl (HttpThrown 500 RecordNotFound)) \<and>
   POST_mdts store0 (Some ''alice@local.example'') case_body = (store_case, Inr (Some case_mdt)) \<and>
   (\<exists>u. create_mdt_tx store0 u case_body = Inr (store_case, Some case_mdt) \<and>
        set (members case_mdt) = {user_id u}) \<and>
   mdt_state case_mdt = ACTIVE \<and>
   mdts store_case = [case_mdt] \<and>
   map ms_filled (mdtSpecialties store_case) = [False, False] \<and>
   map (\<lambda>x. (inv_receiverId x, inv_status x, inv_mdtId x)) (invitations store_case)
   = [(3, PENDING, 1), (4, PENDING, 1)]"
proof -
  from create_mdt_atomic [OF alice_creates_case]
  obtain u m where
    tx: "create_mdt_tx store0 u case_body = Inr (store_case, Some case_mdt)"
    and m: "Some case_mdt = Some m"
    and member: "set (members m) = insert (user_id u) (set (body_localDoctors case_body))"
    unfolding sum.case by blast
  from m have "m = case_mdt"
    by simp
  with member have "set (members case_mdt) = {user_id u}"
    by (simp add: case_body_def)
  with tx have ex: "\<exists>u. create_mdt_tx store0 u case_body = Inr (store_case, Some case_mdt) \<and>
        set (members case_mdt) = {user_id u}"
    by (intro exI [of _ u] conjI)
  have "mdt_state case_mdt = ACTIVE" "mdts store_case = [case_mdt]"
    "map ms_filled (mdtSpecialties store_case) = [False, False]"
    "map (\<lambda>x. (inv_receiverId x, inv_status x, inv_mdtId x)) (invitations store_case)
     = [(3, PENDING, 1), (4, PENDING, 1)]"
    by (simp_all add: store_case_def case_mdt_def)
  with alice_repeats_specialty alice_names_unknown_doctor alice_creates_case ex show ?thesis
    by (intro conjI)
qed

section \<open>What the sign-up schema does enforce\<close>

lemma signup_rejects_short_password:
  assumes "sb_password b = Some p" and "length p < 8"
  shows "signup_validate is_email b = Inl (HttpError 400 ''Invalid data'')"
  using assms
  by (simp add: signup_validate_def localSignUpSchema_def externalSignUpSchema_def
      baseSignUpSchema_def string_min_def)

section \<open>The routes that keep a resolved invitation as it is\<close>

text \<open>
  The respond route and the withdrawal refuse an invitation that is no longer PENDING, and
  change nothing.
\<close>

lemma respond_resolved_refused:
  assumes "findUserByEmail d e = Some u" and "findInvitation d invId = Some invitation"
    and "inv_receiverId invitation = user_id u" and "inv_status invitation \<noteq> PENDING"
    and "status = ACCEPTED \<or> status = DECLINED"
  shows "PATCH_invitation d (Some e) invId status
         = (d, Inl (HttpError 400 ''Invitation has already been responded to''))"
  using assms by (auto simp: PATCH_invitation_def respond_commit_def respond_read_def)

lemma withdraw_resolved_refused:
  assumes "findUserByEmail d e = Some u" and "findInvitation d invId = Some invitation"
    and "inv_senderId invitation = user_id u" and "inv_status invitation \<noteq> PENDING"
  shows "DELETE_invitation d (Some e) invId
         = (d, Inl (HttpError 400 ''Cannot cancel a non-pending invitation''))"
  using assms by (simp add: DELETE_invitation_def)

text \<open>
  Served one after the other, the two acceptances of \<open>store1\<close> end as intended: after
  Dave's, Carol's is refused.
\<close>

lemma carol_accepts_after_dave:
  "PATCH_invitation store_accepted (Some ''carol@abroad.example'') 1 ACCEPTED
   = (store_accepted, Inl (HttpError 400 ''Invitation has already been responded to''))"
  by (simp add: PATCH_invitation_def respond_commit_def respond_read_def findUserByEmail_def
      findInvitation_def store_accepted_def ex_defs)

section \<open>Where the code departs from the specification\<close>

text \<open>
  C2. The handler of the respond route checks the slot before it opens its transaction.
  When Dave and Carol accept their PENDING invitations for the same Cardiology slot and
  both handlers have read the store before either transaction starts, both requests
  succeed and both invitations end ACCEPTED: the second transaction sets Carol's
  invitation, which the first had CANCELLED, to ACCEPTED.
\<close>

theorem concurrent_accepts_both_succeed:
  "respond_both_read_first store1 (Some ''dave@abroad.example'', 2) (Some ''carol@abroad.example'', 1)
   = (store_both_accepted,
      Inr (dave_invitation \<lparr> inv_status := ACCEPTED \<rparr>),
      Inr (carol_invitation \<lparr> inv_status := ACCEPTED \<rparr>))"
  by (simp add: respond_both_read_first_def respond_commit_def respond_read_def respond_tx_def
      invitation_update_def mdtSpecialty_fill_def cancel_other_invitations_def
      mdt_connect_members_def findUserByEmail_def findInvitation_def findMDT_def
      store_both_accepted_def ex_defs List.union_def List.insert_def)

text \<open>
  C5. The collection route \<open>PATCH /api/mdt/invitations\<close> does not look at the current
  status: after Dave's acceptance has CANCELLED Carol's invitation, Carol's request with
  ACCEPTED sets it to ACCEPTED and makes her a member of the MDT.
\<close>

theorem collection_patch_changes_terminal_status:
  "findInvitation store_accepted 1 = Some (carol_invitation \<lparr> inv_status := CANCELLED \<rparr>) \<and>
   PATCH_invitations store_accepted (Some ''carol@abroad.example'') 1 ACCEPTED
   = (store_both_accepted, Inr (carol_invitation \<lparr> inv_status := ACCEPTED \<rparr>))"
  by (simp add: PATCH_invitations_def Let_def mdt_connect_members_def findUserByEmail_def
      findInvitation_def findMDT_def store_accepted_def
      store_both_accepted_def ex_defs List.union_def List.insert_def)

text \<open>
  C6. Erin is not a member of the MDT, not the sender and not the receiver of Carol's
  invitation, and the route returns the invitation to her: the test of the sender is the
  truthiness of the sender's first name.
\<close>

theorem outsider_reads_invitation:
  "user_id erin \<notin> set (members case_mdt) \<and>
   user_id erin \<noteq> inv_senderId carol_invitation \<and>
   user_id erin \<noteq> inv_receiverId carol_invitation \<and>
   findMDT store1 (inv_mdtId carol_invitation) = Some case_mdt \<and>
   GET_invitation store1 (Some ''erin@local.example'') 1 = Inr carol_invitation"
  by (simp add: GET_invitation_def findUserByEmail_def findInvitation_def findMDT_def ex_defs)

text \<open>
  C9. The schema of the sign-up route accepts the password \<open>aaaaaaaa\<close>, which has no
  uppercase letter and no digit and which the rule of the sign-up form refuses.
\<close>

theorem signup_accepts_weak_password:
  "signup_validate (\<lambda>e. e = weak_email) weak_signup = Inr weak_signup \<and>
   sb_password weak_signup = Some (replicate 8 0x61) \<and>
   \<not> form_password_ok (replicate 8 0x61)"
  by (simp add: signup_validate_def externalSignUpSchema_def baseSignUpSchema_def
      string_min_def weak_signup_def form_password_ok_def is_line_terminator_def
      list_ex_iff)

end
